theory Spec2Isabelle
  imports Complex_Main "HOL-Library.Sublist"
begin

section \<open>Python values\<close>

text \<open>
  A Python \<^verbatim>\<open>float\<close> is a finite number or one of the three special values.  A
  finite float is the real number it denotes; the sign of zero is not kept.
\<close>

datatype pyfloat = Fin real | NaN | PosInf | NegInf

text \<open>
  The exceptions of \<^verbatim>\<open>mini_weather_app/dashboard.py\<close>.  The three \<^verbatim>\<open>RuntimeError\<close>s and
  the \<^verbatim>\<open>ValueError\<close> of \<^verbatim>\<open>fetch_smhi\<close> are told apart by their raise site and carry
  the values their message is built from:
  \<^item> \<open>ValueError_coordinates lat lon\<close>: line 71, "Ogiltiga koordinater";
  \<^item> \<open>RuntimeError_http status sample\<close>: line 82, "SMHI HTTP ...";
  \<^item> \<open>RuntimeError_content_type ct sample\<close>: line 88, "SMHI svarade inte med JSON";
  \<^item> \<open>RuntimeError_decode cause sample\<close>: line 95, "Kunde inte tolka JSON".
  The others are the exceptions Python and the libraries raise themselves.
\<close>

datatype error =
    ValueError_coordinates pyfloat pyfloat
  | RuntimeError_http int string
  | RuntimeError_content_type string string
  | RuntimeError_decode string string
  | KeyError string
  | TypeError
  | AttributeError
  | IndexError
  | ValueError
  | OverflowError
  | RequestException string

definition err_bind :: "error + 'a \<Rightarrow> ('a \<Rightarrow> error + 'b) \<Rightarrow> error + 'b" where
  "err_bind m f = (case m of Inl e \<Rightarrow> Inl e | Inr x \<Rightarrow> f x)"

subsection \<open>Float arithmetic used by the dashboard\<close>

text \<open>\<^verbatim>\<open>a <= b\<close> on floats: every comparison with NaN is false.\<close>

fun float_le :: "pyfloat \<Rightarrow> pyfloat \<Rightarrow> bool" where
  "float_le NaN _ = False"
| "float_le _ NaN = False"
| "float_le NegInf _ = True"
| "float_le _ PosInf = True"
| "float_le (Fin x) (Fin y) = (x \<le> y)"
| "float_le (Fin x) NegInf = False"
| "float_le PosInf _ = False"

text \<open>
  Arithmetic on finite floats rounds.  \<open>rd\<close> is the rounding of a real to the nearest
  double, ties to the even mantissa: 53 significant bits, the unit in the last place
  never below \<open>2 ^ - 1074\<close>.  \<open>float_of_real\<close> adds the overflow to an infinity.
\<close>

definition round_even :: "real \<Rightarrow> int" where
  "round_even x =
     (let f = \<lfloor>x\<rfloor>; d = x - of_int f
      in if d < 1 / 2 then f else if 1 / 2 < d then f + 1 else if even f then f else f + 1)"

definition ulp_exponent :: "real \<Rightarrow> int" where
  "ulp_exponent x = max \<lfloor>log 2 \<bar>x\<bar>\<rfloor> (- 1022) - 52"

definition rd :: "real \<Rightarrow> real" where
  "rd x =
     (if x = 0 then 0
      else of_int (round_even (x / 2 powr of_int (ulp_exponent x)))
           * 2 powr of_int (ulp_exponent x))"






section \<open>Degrees to compass label\<close>




section \<open>JSON payloads as Python values\<close>

text \<open>
  What \<^verbatim>\<open>r.json()\<close> can return.  A \<^verbatim>\<open>dict\<close> is an association list read with
  \<open>map_of\<close>; a Python \<^verbatim>\<open>str\<close> is the list of its characters.
\<close>

datatype json =
    JNull
  | JBool bool
  | JInt int
  | JFloat pyfloat
  | JStr string
  | JArr "json list"
  | JObj "(string \<times> json) list"

text \<open>Truth value of an object, as \<^verbatim>\<open>x or []\<close> and \<^verbatim>\<open>... if vals else ...\<close> test it.\<close>

fun truthy :: "json \<Rightarrow> bool" where
  "truthy JNull = False"
| "truthy (JBool b) = b"
| "truthy (JInt n) = (n \<noteq> 0)"
| "truthy (JFloat f) = (f \<noteq> Fin 0)"
| "truthy (JStr s) = (s \<noteq> [])"
| "truthy (JArr xs) = (xs \<noteq> [])"
| "truthy (JObj kvs) = (kvs \<noteq> [])"

definition py_or :: "json \<Rightarrow> json \<Rightarrow> json" where
  "py_or a b = (if truthy a then a else b)"

text \<open>\<^verbatim>\<open>d.get(key, default)\<close>: only a dict has the method.\<close>

fun dict_get :: "json \<Rightarrow> string \<Rightarrow> json \<Rightarrow> error + json" where
  "dict_get (JObj kvs) k d = Inr (case map_of kvs k of None \<Rightarrow> d | Some v \<Rightarrow> v)"
| "dict_get _ k d = Inl AttributeError"

text \<open>\<^verbatim>\<open>d[key]\<close> with a string key: \<^verbatim>\<open>KeyError\<close> on a dict without it, \<^verbatim>\<open>TypeError\<close> elsewhere.\<close>

fun subscript_key :: "json \<Rightarrow> string \<Rightarrow> error + json" where
  "subscript_key (JObj kvs) k = (case map_of kvs k of None \<Rightarrow> Inl (KeyError k) | Some v \<Rightarrow> Inr v)"
| "subscript_key _ k = Inl TypeError"

text \<open>\<^verbatim>\<open>vals[0]\<close>: a dict is asked for the key 0, which no JSON object has.\<close>

fun subscript_0 :: "json \<Rightarrow> error + json" where
  "subscript_0 (JArr (x # xs)) = Inr x"
| "subscript_0 (JArr []) = Inl IndexError"
| "subscript_0 (JStr (c # cs)) = Inr (JStr [c])"
| "subscript_0 (JStr []) = Inl IndexError"
| "subscript_0 (JObj kvs) = Inl (KeyError ''0'')"
| "subscript_0 _ = Inl TypeError"

text \<open>
  The elements a \<^verbatim>\<open>for\<close> loop runs over: those of a list, the characters of a string,
  the keys of a dict; anything else is not iterable.
\<close>

fun py_iter :: "json \<Rightarrow> error + json list" where
  "py_iter (JArr xs) = Inr xs"
| "py_iter (JStr s) = Inr (map (\<lambda>c. JStr [c]) s)"
| "py_iter (JObj kvs) = Inr (map (\<lambda>kv. JStr (fst kv)) kvs)"
| "py_iter _ = Inl TypeError"

section \<open>Time stamps\<close>

text \<open>
  A \<^verbatim>\<open>datetime\<close>: the wall-clock reading in microseconds since the epoch, and the UTC
  offset of its \<^verbatim>\<open>tzinfo\<close> in microseconds (\<open>None\<close> for a naive value).  Aware values
  are compared, subtracted and sorted by the instant they denote.
\<close>

record datetime =
  wall :: int
  tzinfo :: "int option"

definition instant :: "datetime \<Rightarrow> int" where
  "instant dt = wall dt - (case tzinfo dt of None \<Rightarrow> 0 | Some off \<Rightarrow> off)"

text \<open>
  The least and the greatest \<^verbatim>\<open>datetime\<close>, 0001-01-01T00:00:00 and
  9999-12-31T23:59:59.999999, as wall-clock microseconds.
\<close>

definition datetime_min :: int where
  "datetime_min = - 62135596800000000"

definition datetime_max :: int where
  "datetime_max = 253402300799999999"

definition in_datetime_range :: "int \<Rightarrow> bool" where
  "in_datetime_range w = (datetime_min \<le> w \<and> w \<le> datetime_max)"

text \<open>
  \<^verbatim>\<open>dt.astimezone(tz)\<close> for an aware \<open>dt\<close>; the zone \<open>tz\<close> gives the offset in force at a
  UTC instant.  The value is first moved to UTC (\<^verbatim>\<open>self - offset\<close>) and then to the
  zone (\<^verbatim>\<open>tz.fromutc\<close>, which adds the zone's offset); either step raises
  \<^verbatim>\<open>OverflowError\<close> when it leaves the range of \<^verbatim>\<open>datetime\<close>.  \<^verbatim>\<open>STHLM_TZ\<close> (line 16)
  is such a zone and is a parameter below, as is \<^verbatim>\<open>dateutil\<close>'s \<^verbatim>\<open>isoparse\<close>.
\<close>

definition astimezone :: "(int \<Rightarrow> int) \<Rightarrow> datetime \<Rightarrow> error + datetime" where
  "astimezone tz dt =
     (let u = instant dt in
      if \<not> in_datetime_range u then Inl OverflowError
      else
        let w = u + tz u in
        if \<not> in_datetime_range w then Inl OverflowError
        else Inr \<lparr>wall = w, tzinfo = Some (tz u)\<rparr>)"

text \<open>\<^verbatim>\<open>_utc_to_local\<close> (lines 54-58).\<close>

definition utc_to_local ::
  "(json \<Rightarrow> error + datetime) \<Rightarrow> (int \<Rightarrow> int) \<Rightarrow> json \<Rightarrow> error + datetime" where
  "utc_to_local isoparse STHLM_TZ ts_iso =
     err_bind (isoparse ts_iso) (\<lambda>dt.
       let dt' = (if tzinfo dt = None then dt\<lparr>tzinfo := Some 0\<rparr> else dt)
       in astimezone STHLM_TZ dt')"

text \<open>\<^verbatim>\<open>now + pd.Timedelta(hours=h)\<close>: the wall clock moves, the \<^verbatim>\<open>tzinfo\<close> stays.\<close>

definition add_hours :: "datetime \<Rightarrow> int \<Rightarrow> datetime" where
  "add_hours dt h = dt\<lparr>wall := wall dt + h * 3600000000\<rparr>"

section \<open>Normalising the payload\<close>

text \<open>\<^verbatim>\<open>_safe_get_param\<close> (lines 47-52).\<close>

fun safe_get_param_loop :: "json list \<Rightarrow> string \<Rightarrow> json \<Rightarrow> error + json" where
  "safe_get_param_loop [] name dflt = Inr dflt"
| "safe_get_param_loop (p # ps) name dflt =
     err_bind (dict_get p ''name'' JNull) (\<lambda>n.
       if n = JStr name then
         err_bind (dict_get p ''values'' JNull) (\<lambda>v.
           let vals = py_or v (JArr [])
           in if truthy vals then subscript_0 vals else Inr dflt)
       else safe_get_param_loop ps name dflt)"

definition safe_get_param :: "json \<Rightarrow> string \<Rightarrow> json \<Rightarrow> error + json" where
  "safe_get_param param_list name dflt =
     err_bind (py_iter param_list) (\<lambda>ps. safe_get_param_loop ps name dflt)"

text \<open>One row of the table: the dict appended at lines 104-116.\<close>

record row =
  time :: datetime
  temp_C :: json
  wind_ms :: json
  gust_ms :: json
  precip_mm_h :: json
  cloud_okta :: json
  msl_hPa :: json
  rh_pct :: json
  wind_deg :: json

text \<open>The body of the loop of \<^verbatim>\<open>smhi_to_df\<close> (lines 102-116), in evaluation order.\<close>

definition make_row ::
  "(json \<Rightarrow> error + datetime) \<Rightarrow> (int \<Rightarrow> int) \<Rightarrow> json \<Rightarrow> error + row" where
  "make_row isoparse STHLM_TZ item =
     err_bind (subscript_key item ''validTime'') (\<lambda>vt.
     err_bind (utc_to_local isoparse STHLM_TZ vt) (\<lambda>valid_time.
     err_bind (dict_get item ''parameters'' (JArr [])) (\<lambda>params.
     err_bind (safe_get_param params ''t'' (JFloat NaN)) (\<lambda>v_t.
     err_bind (safe_get_param params ''ws'' (JFloat NaN)) (\<lambda>v_ws.
     err_bind (safe_get_param params ''gust'' (JFloat NaN)) (\<lambda>v_gust.
     err_bind (safe_get_param params ''pmean'' (JFloat (Fin 0))) (\<lambda>v_pmean.
     err_bind (safe_get_param params ''tcc_mean'' (JFloat NaN)) (\<lambda>v_tcc.
     err_bind (safe_get_param params ''msl'' (JFloat NaN)) (\<lambda>v_msl.
     err_bind (safe_get_param params ''r'' (JFloat NaN)) (\<lambda>v_r.
     err_bind (safe_get_param params ''wd'' (JFloat NaN)) (\<lambda>v_wd.
       Inr \<lparr>time = valid_time, temp_C = v_t, wind_ms = v_ws, gust_ms = v_gust,
            precip_mm_h = v_pmean, cloud_okta = v_tcc, msl_hPa = v_msl,
            rh_pct = v_r, wind_deg = v_wd\<rparr>)))))))))))"

fun make_rows ::
  "(json \<Rightarrow> error + datetime) \<Rightarrow> (int \<Rightarrow> int) \<Rightarrow> json list \<Rightarrow> error + row list" where
  "make_rows isoparse STHLM_TZ [] = Inr []"
| "make_rows isoparse STHLM_TZ (item # items) =
     err_bind (make_row isoparse STHLM_TZ item) (\<lambda>r.
     err_bind (make_rows isoparse STHLM_TZ items) (\<lambda>rs. Inr (r # rs)))"

subsection \<open>The pandas operations\<close>

text \<open>
  A \<^verbatim>\<open>DataFrame\<close> built from row dicts has the nine columns of \<open>row\<close>; one built
  from the empty list has no columns at all.  The index is the position in the list,
  which is what \<^verbatim>\<open>reset_index(drop=True)\<close> leaves.
\<close>

datatype dataframe = NoColumns | Frame "row list"

definition pd_DataFrame :: "row list \<Rightarrow> dataframe" where
  "pd_DataFrame rs = (if rs = [] then NoColumns else Frame rs)"

fun rows :: "dataframe \<Rightarrow> row list" where
  "rows NoColumns = []"
| "rows (Frame rs) = rs"

text \<open>\<^verbatim>\<open>"precip_mm_h" in df\<close>: whether the frame has the column.\<close>

fun has_columns :: "dataframe \<Rightarrow> bool" where
  "has_columns NoColumns = False"
| "has_columns (Frame rs) = True"

text \<open>
  \<^verbatim>\<open>df.sort_values("time")\<close>: \<^verbatim>\<open>KeyError\<close> when the frame has no such column.  Rows with
  equal times are kept in their order here; pandas does not promise that.
\<close>

fun sort_values_time :: "dataframe \<Rightarrow> error + dataframe" where
  "sort_values_time NoColumns = Inl (KeyError ''time'')"
| "sort_values_time (Frame rs) = Inr (Frame (sort_key (\<lambda>r. instant (time r)) rs))"

text \<open>\<^verbatim>\<open>fillna(0.0)\<close> replaces the missing values: NaN and \<^verbatim>\<open>None\<close>.\<close>

definition isna :: "json \<Rightarrow> bool" where
  "isna v = (v = JFloat NaN \<or> v = JNull)"

definition fillna :: "json \<Rightarrow> json \<Rightarrow> json" where
  "fillna c v = (if isna v then c else v)"

fun fillna_precip :: "dataframe \<Rightarrow> dataframe" where
  "fillna_precip NoColumns = NoColumns"
| "fillna_precip (Frame rs) =
     Frame (map (\<lambda>r. r\<lparr>precip_mm_h := fillna (JFloat (Fin 0)) (precip_mm_h r)\<rparr>) rs)"

text \<open>\<^verbatim>\<open>smhi_to_df\<close> (lines 97-121).\<close>

definition smhi_to_df ::
  "(json \<Rightarrow> error + datetime) \<Rightarrow> (int \<Rightarrow> int) \<Rightarrow> json \<Rightarrow> error + dataframe" where
  "smhi_to_df isoparse STHLM_TZ payload =
     err_bind (dict_get payload ''timeSeries'' (JArr [])) (\<lambda>v.
     let ts = py_or v (JArr []) in
     err_bind (py_iter ts) (\<lambda>items.
     err_bind (make_rows isoparse STHLM_TZ items) (\<lambda>rs.
     err_bind (sort_values_time (pd_DataFrame rs)) (\<lambda>df.
       Inr (if has_columns df then fillna_precip df else df)))))"

section \<open>Current row and window\<close>

text \<open>
  \<^verbatim>\<open>Series.idxmin()\<close>: the label of the first occurrence of the minimum, \<^verbatim>\<open>ValueError\<close>
  on an empty series.
\<close>

fun argmin_first :: "int list \<Rightarrow> nat" where
  "argmin_first [] = 0"
| "argmin_first [x] = 0"
| "argmin_first (x # y # ys) =
     (let j = argmin_first (y # ys) in if x \<le> (y # ys) ! j then 0 else Suc j)"

definition idxmin :: "int list \<Rightarrow> error + nat" where
  "idxmin xs = (if xs = [] then Inl ValueError else Inr (argmin_first xs))"

text \<open>
  \<^verbatim>\<open>pick_current_row\<close> (lines 123-127); the clock reading \<^verbatim>\<open>datetime.now(STHLM_TZ)\<close> is
  the argument \<open>now\<close>.
\<close>

fun pick_current_row :: "datetime \<Rightarrow> dataframe \<Rightarrow> error + row" where
  "pick_current_row now NoColumns = Inl (KeyError ''time'')"
| "pick_current_row now (Frame rs) =
     err_bind (idxmin (map (\<lambda>r. \<bar>instant (time r) - instant now\<bar>) rs)) (\<lambda>idx. Inr (rs ! idx))"

text \<open>
  The window of lines 170-171, \<^verbatim>\<open>df[(df["time"] >= now) & (df["time"] <= now + h)]\<close>:
  two boolean columns, their conjunction, and the rows the mask selects.
\<close>

fun select_mask :: "bool list \<Rightarrow> 'a list \<Rightarrow> 'a list" where
  "select_mask (b # bs) (x # xs) = (if b then x # select_mask bs xs else select_mask bs xs)"
| "select_mask _ _ = []"

fun df_window :: "datetime \<Rightarrow> int \<Rightarrow> dataframe \<Rightarrow> error + dataframe" where
  "df_window now_local hours_ahead NoColumns = Inl (KeyError ''time'')"
| "df_window now_local hours_ahead (Frame rs) =
     (let ge = map (\<lambda>r. instant now_local \<le> instant (time r)) rs;
          le = map (\<lambda>r. instant (time r) \<le> instant (add_hours now_local hours_ahead)) rs;
          mask = map (\<lambda>(a, b). a \<and> b) (zip ge le)
      in Inr (Frame (select_mask mask rs)))"

section \<open>Fetching the forecast\<close>

text \<open>
  What \<^verbatim>\<open>fetch_smhi\<close> reads of a \<^verbatim>\<open>requests.Response\<close>: the status, the
  \<^verbatim>\<open>Content-Type\<close> header (\<open>None\<close> when absent) and the decoded body \<^verbatim>\<open>r.text\<close>.
\<close>

record response =
  status_code :: int
  content_type :: "string option"
  resp_text :: string

text \<open>\<^verbatim>\<open>SMHI_ENDPOINT.format(lat=..., lon=...)\<close> (lines 17-20, 73).\<close>

definition SMHI_ENDPOINT :: "string \<Rightarrow> string \<Rightarrow> string" where
  "SMHI_ENDPOINT lat lon =
     ''https://opendata-download-metfcst.smhi.se/api/category/pmp3g/version/2/''
     @ ''geotype/point/lon/'' @ lon @ ''/lat/'' @ lat @ ''/data.json''"

text \<open>The guard of line 70, on floats: a chained comparison with NaN is false.\<close>

definition coordinates_ok :: "pyfloat \<Rightarrow> pyfloat \<Rightarrow> bool" where
  "coordinates_ok lat lon =
     (float_le (Fin (- 90)) lat \<and> float_le lat (Fin 90)
      \<and> float_le (Fin (- 180)) lon \<and> float_le lon (Fin 180))"

text \<open>\<^verbatim>\<open>r.raise_for_status()\<close> raises for the statuses 400 to 599.\<close>

definition raises_for_status :: "response \<Rightarrow> bool" where
  "raises_for_status r = (400 \<le> status_code r \<and> status_code r < 600)"

text \<open>\<^verbatim>\<open>(r.text or "")[:200].replace("\n", " ")\<close>.\<close>

definition sample :: "response \<Rightarrow> string" where
  "sample r = map (\<lambda>c. if c = CHR 0x0A then CHR '' '' else c) (take 200 (resp_text r))"

text \<open>\<^verbatim>\<open>r.headers.get("Content-Type", "")\<close>.\<close>

definition declared_type :: "response \<Rightarrow> string" where
  "declared_type r = (case content_type r of None \<Rightarrow> [] | Some c \<Rightarrow> c)"

text \<open>\<^verbatim>\<open>sub in s\<close> on strings.\<close>

fun str_contains :: "string \<Rightarrow> string \<Rightarrow> bool" where
  "str_contains sub [] = (sub = [])"
| "str_contains sub (c # cs) = (take (length sub) (c # cs) = sub \<or> str_contains sub cs)"

text \<open>
  Lines 73-95 of \<^verbatim>\<open>fetch_smhi\<close>.  Three things the function calls are parameters:
  \<^item> \<open>fmt6\<close>, the formatting \<^verbatim>\<open>f"{x:.6f}"\<close>;
  \<^item> \<open>session_get\<close>, the call \<^verbatim>\<open>s.get(url, timeout=15)\<close> on the session of
    \<^verbatim>\<open>_requests_session\<close>, retries included: from the URL and the state \<open>net\<close> of the
    network it gives the response, or the exception \<^verbatim>\<open>requests\<close> raises, and the
    network's new state;
  \<^item> \<open>json_loads\<close>, the decoding done by \<^verbatim>\<open>r.json()\<close>, \<open>Inl\<close> with the parser's message
    when it fails.
  The cache of line 67 is not modelled: every call runs the body.
\<close>

definition fetch_request ::
  "(pyfloat \<Rightarrow> string) \<Rightarrow> (string \<Rightarrow> 'n \<Rightarrow> (error + response) \<times> 'n) \<Rightarrow>
   (string \<Rightarrow> string + json) \<Rightarrow> pyfloat \<Rightarrow> pyfloat \<Rightarrow> 'n \<Rightarrow> (error + json) \<times> 'n" where
  "fetch_request fmt6 session_get json_loads lat lon net =
     (let url = SMHI_ENDPOINT (fmt6 lat) (fmt6 lon) in
      case session_get url net of
        (Inl e, net') \<Rightarrow> (Inl e, net')
      | (Inr r, net') \<Rightarrow>
          if raises_for_status r
          then (Inl (RuntimeError_http (status_code r) (sample r)), net')
          else
            let ct = declared_type r in
            if \<not> str_contains ''application/json'' ct
            then (Inl (RuntimeError_content_type ct (sample r)), net')
            else
              (case json_loads (resp_text r) of
                 Inl msg \<Rightarrow> (Inl (RuntimeError_decode msg (sample r)), net')
               | Inr v \<Rightarrow> (Inr v, net')))"

text \<open>\<^verbatim>\<open>fetch_smhi\<close> (lines 68-95): the guard of lines 70-71, then the request.\<close>

definition fetch_smhi ::
  "(pyfloat \<Rightarrow> string) \<Rightarrow> (string \<Rightarrow> 'n \<Rightarrow> (error + response) \<times> 'n) \<Rightarrow>
   (string \<Rightarrow> string + json) \<Rightarrow> pyfloat \<Rightarrow> pyfloat \<Rightarrow> 'n \<Rightarrow> (error + json) \<times> 'n" where
  "fetch_smhi fmt6 session_get json_loads lat lon net =
     (if \<not> coordinates_ok lat lon
      then (Inl (ValueError_coordinates lat lon), net)
      else fetch_request fmt6 session_get json_loads lat lon net)"

subsection \<open>The retrying session\<close>

text \<open>The policy \<^verbatim>\<open>_requests_session\<close> mounts (lines 34-41), field by field.\<close>

record retry =
  total_retries :: nat
  backoff_factor :: real
  status_forcelist :: "int list"
  allowed_methods :: "string list"
  raise_on_status :: bool

definition requests_session :: retry where
  "requests_session =
     \<lparr>total_retries = 3, backoff_factor = 0.5,
      status_forcelist = [429, 500, 502, 503, 504],
      allowed_methods = [''GET''], raise_on_status = False\<rparr>"

text \<open>
  The network as a test double sees it: how many requests were sent, and the delays
  slept between them.  An upstream gives, for a URL, the response to the request
  number \<open>k\<close>, counted from 0.
\<close>

record net =
  attempts :: nat
  sleeps :: "real list"

text \<open>
  Modelled from the spec: the retry loop that runs inside \<^verbatim>\<open>s.get\<close>.  It belongs to the
  HTTP adapter of \<^verbatim>\<open>requests\<close> and \<^verbatim>\<open>urllib3\<close>, which is not among the sources; only
  the policy passed to it is.  As the specification words it: a request of an allowed
  method answered with a status of the force list is sent again, at most
  \<open>total_retries\<close> times, after sleeping \<open>backoff_factor * 2 ^ k\<close> before retry number
  \<open>k\<close> (from 0); no other response is retried; with \<open>raise_on_status\<close> off the last
  response is handed back when the retries are used up.  \<open>left\<close> counts the retries
  left, \<open>k\<close> those made.
\<close>

fun retry_loop ::
  "retry \<Rightarrow> (nat \<Rightarrow> response) \<Rightarrow> string \<Rightarrow> nat \<Rightarrow> nat \<Rightarrow> net \<Rightarrow> (error + response) \<times> net" where
  "retry_loop pol up method 0 k n =
     (let r = up (attempts n); n1 = n\<lparr>attempts := Suc (attempts n)\<rparr> in
      if method \<in> set (allowed_methods pol) \<and> status_code r \<in> set (status_forcelist pol)
         \<and> raise_on_status pol
      then (Inl (RequestException ''MaxRetryError''), n1)
      else (Inr r, n1))"
| "retry_loop pol up method (Suc left) k n =
     (let r = up (attempts n); n1 = n\<lparr>attempts := Suc (attempts n)\<rparr> in
      if method \<in> set (allowed_methods pol) \<and> status_code r \<in> set (status_forcelist pol)
      then retry_loop pol up method left (Suc k)
             (n1\<lparr>sleeps := sleeps n1 @ [backoff_factor pol * 2 ^ k]\<rparr>)
      else (Inr r, n1))"

text \<open>\<^verbatim>\<open>s.get(url, timeout=15)\<close> on the session of \<^verbatim>\<open>_requests_session\<close>, against an upstream.\<close>

definition s_get ::
  "(string \<Rightarrow> nat \<Rightarrow> response) \<Rightarrow> string \<Rightarrow> net \<Rightarrow> (error + response) \<times> net" where
  "s_get upstream url n =
     retry_loop requests_session (upstream url) ''GET'' (total_retries requests_session) 0 n"

section \<open>Payload shapes and example data\<close>

text \<open>An entry that is a dict with a \<^verbatim>\<open>validTime\<close> the parser accepts.\<close>

definition has_valid_time :: "(json \<Rightarrow> error + datetime) \<Rightarrow> json \<Rightarrow> bool" where
  "has_valid_time isoparse item =
     (case item of
        JObj kvs \<Rightarrow> (case map_of kvs ''validTime'' of
                       None \<Rightarrow> False
                     | Some vt \<Rightarrow> (case isoparse vt of Inl e \<Rightarrow> False | Inr dt \<Rightarrow> True))
      | _ \<Rightarrow> False)"

text \<open>An entry without the key \<^verbatim>\<open>validTime\<close>: a dict that lacks it, or no dict at all.\<close>

definition lacks_valid_time :: "json \<Rightarrow> bool" where
  "lacks_valid_time item =
     (case item of JObj kvs \<Rightarrow> map_of kvs ''validTime'' = None | _ \<Rightarrow> True)"

text \<open>A parameter as the feed documents it: a dict whose \<^verbatim>\<open>values\<close> are absent, null or a list.\<close>

definition param_ok :: "json \<Rightarrow> bool" where
  "param_ok p =
     (case p of
        JObj kvs \<Rightarrow> (case map_of kvs ''values'' of
                       None \<Rightarrow> True
                     | Some JNull \<Rightarrow> True
                     | Some (JArr vs) \<Rightarrow> True
                     | Some _ \<Rightarrow> False)
      | _ \<Rightarrow> False)"

text \<open>
  A time stamp the parser accepts and that stays in the range of \<^verbatim>\<open>datetime\<close> both as
  UTC and in the zone.
\<close>

definition time_in_range :: "(json \<Rightarrow> error + datetime) \<Rightarrow> (int \<Rightarrow> int) \<Rightarrow> json \<Rightarrow> bool" where
  "time_in_range isoparse tz vt =
     (case isoparse vt of
        Inl e \<Rightarrow> False
      | Inr dt \<Rightarrow> in_datetime_range (instant dt)
                 \<and> in_datetime_range (instant dt + tz (instant dt)))"

text \<open>
  An entry that is a dict with such a \<^verbatim>\<open>validTime\<close>, whose \<^verbatim>\<open>parameters\<close> are absent
  or a list of parameters as above.
\<close>

definition entry_ok :: "(json \<Rightarrow> error + datetime) \<Rightarrow> (int \<Rightarrow> int) \<Rightarrow> json \<Rightarrow> bool" where
  "entry_ok isoparse tz item =
     (case item of
        JObj kvs \<Rightarrow>
          (case map_of kvs ''validTime'' of
             None \<Rightarrow> False
           | Some vt \<Rightarrow> time_in_range isoparse tz vt)
          \<and> (case map_of kvs ''parameters'' of
                None \<Rightarrow> True
              | Some (JArr ps) \<Rightarrow> list_all param_ok ps
              | Some _ \<Rightarrow> False)
      | _ \<Rightarrow> False)"

text \<open>
  The claim's words for a declared content type that is JSON: the media type, the
  header up to the first semicolon, is \<^verbatim>\<open>application/json\<close>.
\<close>

definition media_type :: "string \<Rightarrow> string" where
  "media_type ct = takeWhile (\<lambda>c. c \<noteq> CHR '';'') ct"

definition is_json_type :: "string \<Rightarrow> bool" where
  "is_json_type ct = (media_type ct = ''application/json'')"

text \<open>
  Example data for the concrete checks: a parser that knows two time stamps, one with an
  offset and one naive, and a zone one hour ahead of UTC.
\<close>

definition isoparse_example :: "json \<Rightarrow> error + datetime" where
  "isoparse_example v =
     (if v = JStr ''2025-11-04T10:00:00Z''
      then Inr \<lparr>wall = 1762250400000000, tzinfo = Some 0\<rparr>
      else if v = JStr ''2025-11-04T11:00:00''
      then Inr \<lparr>wall = 1762254000000000, tzinfo = None\<rparr>
      else Inl ValueError)"

definition tz_example :: "int \<Rightarrow> int" where
  "tz_example u = 3600000000"

definition payload_example :: json where
  "payload_example =
     JObj [(''approvedTime'', JStr ''2025-11-04T10:00:00Z''),
           (''timeSeries'', JArr [
              JObj [(''validTime'', JStr ''2025-11-04T11:00:00''),
                    (''parameters'', JArr [
                       JObj [(''name'', JStr ''t''), (''values'', JArr [JFloat (Fin 3.5)])],
                       JObj [(''name'', JStr ''pmean''), (''values'', JArr [JFloat NaN])]])],
              JObj [(''validTime'', JStr ''2025-11-04T10:00:00Z'')]])]"

definition row_at :: "int \<Rightarrow> json \<Rightarrow> row" where
  "row_at t temp =
     \<lparr>time = \<lparr>wall = t + 3600000000, tzinfo = Some 3600000000\<rparr>,
      temp_C = temp, wind_ms = JFloat NaN, gust_ms = JFloat NaN,
      precip_mm_h = JFloat (Fin 0), cloud_okta = JFloat NaN, msl_hPa = JFloat NaN,
      rh_pct = JFloat NaN, wind_deg = JFloat NaN\<rparr>"

text \<open>
  An upstream that answers every request with an HTML page and counts the calls, and a
  decoder that knows the empty object.
\<close>

definition fmt6_example :: "pyfloat \<Rightarrow> string" where
  "fmt6_example x = (if x = Fin 59.3293 then ''59.329300'' else ''18.068600'')"

definition session_example :: "string \<Rightarrow> nat \<Rightarrow> (error + response) \<times> nat" where
  "session_example url n =
     (Inr \<lparr>status_code = 200, content_type = Some ''text/html'',
           resp_text = ''<html>'' @ [CHR 0x0A] @ ''</html>''\<rparr>, Suc n)"

definition json_loads_example :: "string \<Rightarrow> string + json" where
  "json_loads_example s = (if s = ''{}'' then Inr (JObj []) else Inl ''Expecting value'')"

text \<open>An upstream that declares JSON text sequences and sends an HTML page.\<close>

definition session_json_seq :: "string \<Rightarrow> nat \<Rightarrow> (error + response) \<times> nat" where
  "session_json_seq url n =
     (Inr \<lparr>status_code = 200, content_type = Some ''application/json-seq'',
           resp_text = ''<html>'' @ [CHR 0x0A] @ ''</html>''\<rparr>, Suc n)"

text \<open>Three upstreams for the retrying session.\<close>

definition upstream_mixed :: "string \<Rightarrow> nat \<Rightarrow> response" where
  "upstream_mixed url k =
     \<lparr>status_code = (if k = 0 then 429 else if k = 1 then 500 else if k = 2 then 502 else 504),
      content_type = Some ''text/html'', resp_text = ''busy''\<rparr>"


definition upstream_503_then_200 :: "string \<Rightarrow> nat \<Rightarrow> response" where
  "upstream_503_then_200 url k =
     (if k < 3
      then \<lparr>status_code = 503, content_type = Some ''text/html'',
            resp_text = ''Service Unavailable''\<rparr>
      else \<lparr>status_code = 200, content_type = Some ''application/json; charset=utf-8'',
            resp_text = ''{}''\<rparr>)"

definition upstream_503 :: "string \<Rightarrow> nat \<Rightarrow> response" where
  "upstream_503 url k =
     \<lparr>status_code = 503, content_type = Some ''text/html'', resp_text = ''Service Unavailable''\<rparr>"

definition table_example :: dataframe where
  "table_example =
     Frame [row_at 1762250400000000 (JFloat NaN), row_at 1762254000000000 (JFloat (Fin 3.5))]"

section \<open>The normalised table\<close>

lemma smhi_to_df_Inr:
  assumes "smhi_to_df isoparse tz payload = Inr df"
  obtains rs where "rs \<noteq> []"
    "df = fillna_precip (Frame (sort_key (\<lambda>r. instant (time r)) rs))"
  using assms
  by (auto simp: smhi_to_df_def err_bind_def pd_DataFrame_def Let_def
      split: sum.splits if_splits)

lemma normalize_example:
  "smhi_to_df isoparse_example tz_example payload_example = Inr table_example"
  by (simp add: smhi_to_df_def payload_example_def table_example_def row_at_def
      err_bind_def py_or_def pd_DataFrame_def make_row_def utc_to_local_def
      isoparse_example_def tz_example_def astimezone_def instant_def
      in_datetime_range_def datetime_min_def datetime_max_def
      safe_get_param_def fillna_def isna_def Let_def)

text \<open>
  C1.  A payload whose \<^verbatim>\<open>timeSeries\<close> is absent, null or the empty list does not give
  an empty table: the frame built from no rows has no column \<^verbatim>\<open>time\<close>, and sorting by
  it raises \<^verbatim>\<open>KeyError\<close>.
\<close>

theorem smhi_to_df_empty_raises:
  assumes "map_of kvs ''timeSeries'' = None \<or> map_of kvs ''timeSeries'' = Some JNull
           \<or> map_of kvs ''timeSeries'' = Some (JArr [])"
  shows "smhi_to_df isoparse tz (JObj kvs) = Inl (KeyError ''time'')"
  using assms
  by (auto simp: smhi_to_df_def err_bind_def py_or_def pd_DataFrame_def)

theorem smhi_to_df_empty_raises_witness:
  "smhi_to_df isoparse_example tz_example (JObj []) = Inl (KeyError ''time'')
   \<and> smhi_to_df isoparse_example tz_example (JObj [(''timeSeries'', JNull)])
       = Inl (KeyError ''time'')
   \<and> smhi_to_df isoparse_example tz_example
        (JObj [(''approvedTime'', JStr ''2025-11-04T10:00:00Z''), (''timeSeries'', JArr [])])
       = Inl (KeyError ''time'')"
  using smhi_to_df_empty_raises [of "[]" isoparse_example tz_example]
    smhi_to_df_empty_raises [of "[(''timeSeries'', JNull)]" isoparse_example tz_example]
    smhi_to_df_empty_raises
      [of "[(''approvedTime'', JStr ''2025-11-04T10:00:00Z''), (''timeSeries'', JArr [])]"
          isoparse_example tz_example]
  by simp

text \<open>
  C2.  Whenever \<^verbatim>\<open>smhi_to_df\<close> returns a table, each row's time is at most the time of
  the row after it.
\<close>

theorem smhi_to_df_sorted:
  assumes "smhi_to_df isoparse tz payload = Inr df"
  shows "\<forall>i. Suc i < length (rows df) \<longrightarrow>
           instant (time (rows df ! i)) \<le> instant (time (rows df ! Suc i))"
proof -
  obtain rs where df: "df = fillna_precip (Frame (sort_key (\<lambda>r. instant (time r)) rs))"
    using assms by (rule smhi_to_df_Inr)
  have "map (\<lambda>r. instant (time r)) (rows df) =
        map (\<lambda>r. instant (time r)) (sort_key (\<lambda>r. instant (time r)) rs)"
    by (simp add: df o_def)
  then have "sorted (map (\<lambda>r. instant (time r)) (rows df))"
    by simp
  then show ?thesis
    by (auto simp: sorted_iff_nth_Suc)
qed

theorem smhi_to_df_sorted_witness:
  "smhi_to_df isoparse_example tz_example payload_example = Inr table_example
   \<and> Suc 0 < length (rows table_example)
   \<and> instant (time (rows table_example ! 0)) \<le> instant (time (rows table_example ! Suc 0))"
proof -
  have "Suc 0 < length (rows table_example)"
    by (simp add: table_example_def)
  then show ?thesis
    using smhi_to_df_sorted [OF normalize_example] normalize_example by blast
qed

lemma safe_get_param_loop_absent:
  assumes "\<forall>p \<in> set ps. \<exists>kvs. p = JObj kvs \<and> map_of kvs ''name'' \<noteq> Some (JStr name)"
  shows "safe_get_param_loop ps name dflt = Inr dflt"
  using assms
  by (induction ps) (auto simp: err_bind_def split: option.splits)

text \<open>
  C4.  In a table \<^verbatim>\<open>smhi_to_df\<close> returns no precipitation value is NaN (nor \<^verbatim>\<open>None\<close>):
  the look-up gives 0.0 when no parameter is named \<^verbatim>\<open>pmean\<close>, and the last pass puts
  0.0 wherever a missing value is left and changes nothing else.
\<close>

theorem precip_never_nan:
  "(smhi_to_df isoparse tz payload = Inr df \<longrightarrow>
      (\<forall>r \<in> set (rows df). precip_mm_h r \<noteq> JFloat NaN \<and> precip_mm_h r \<noteq> JNull))
   \<and> ((\<forall>p \<in> set ps. \<exists>kvs. p = JObj kvs \<and> map_of kvs ''name'' \<noteq> Some (JStr ''pmean''))
        \<longrightarrow> safe_get_param (JArr ps) ''pmean'' (JFloat (Fin 0)) = Inr (JFloat (Fin 0)))
   \<and> map precip_mm_h (rows (fillna_precip (Frame rs)))
        = map (\<lambda>r. if precip_mm_h r = JFloat NaN \<or> precip_mm_h r = JNull
                    then JFloat (Fin 0) else precip_mm_h r) rs"
proof (intro conjI impI)
  assume "smhi_to_df isoparse tz payload = Inr df"
  then obtain rs' where "df = fillna_precip (Frame (sort_key (\<lambda>r. instant (time r)) rs'))"
    by (rule smhi_to_df_Inr)
  then show "\<forall>r \<in> set (rows df). precip_mm_h r \<noteq> JFloat NaN \<and> precip_mm_h r \<noteq> JNull"
    by (auto simp: fillna_def isna_def)
next
  assume "\<forall>p \<in> set ps. \<exists>kvs. p = JObj kvs \<and> map_of kvs ''name'' \<noteq> Some (JStr ''pmean'')"
  then show "safe_get_param (JArr ps) ''pmean'' (JFloat (Fin 0)) = Inr (JFloat (Fin 0))"
    by (simp add: safe_get_param_def err_bind_def safe_get_param_loop_absent)
next
  show "map precip_mm_h (rows (fillna_precip (Frame rs)))
        = map (\<lambda>r. if precip_mm_h r = JFloat NaN \<or> precip_mm_h r = JNull
                    then JFloat (Fin 0) else precip_mm_h r) rs"
    by (simp add: fillna_def isna_def o_def)
qed

theorem precip_never_nan_witness:
  "smhi_to_df isoparse_example tz_example payload_example = Inr table_example
   \<and> precip_mm_h (rows table_example ! 0) \<noteq> JFloat NaN
   \<and> precip_mm_h (rows table_example ! 1) \<noteq> JFloat NaN
   \<and> safe_get_param (JArr [JObj [(''name'', JStr ''t''), (''values'', JArr [JInt 3])]])
        ''pmean'' (JFloat (Fin 0)) = Inr (JFloat (Fin 0))"
proof -
  have "\<forall>r \<in> set (rows table_example). precip_mm_h r \<noteq> JFloat NaN \<and> precip_mm_h r \<noteq> JNull"
    using precip_never_nan [of isoparse_example tz_example payload_example table_example]
      normalize_example by blast
  moreover have "rows table_example ! 0 \<in> set (rows table_example)"
    "rows table_example ! 1 \<in> set (rows table_example)"
    by (simp_all add: table_example_def)
  moreover have "safe_get_param (JArr [JObj [(''name'', JStr ''t''), (''values'', JArr [JInt 3])]])
        ''pmean'' (JFloat (Fin 0)) = Inr (JFloat (Fin 0))"
    using precip_never_nan
      [of isoparse_example tz_example payload_example table_example
          "[JObj [(''name'', JStr ''t''), (''values'', JArr [JInt 3])]]"]
    by simp
  ultimately show ?thesis
    using normalize_example by blast
qed

section \<open>Totality of the normaliser\<close>

lemma safe_get_param_loop_ok:
  "list_all param_ok ps \<Longrightarrow> \<exists>v. safe_get_param_loop ps name dflt = Inr v"
proof (induction ps)
  case Nil
  then show ?case by simp
next
  case (Cons p ps)
  then obtain kvs where p: "p = JObj kvs"
    and vals: "map_of kvs ''values'' = None \<or> map_of kvs ''values'' = Some JNull
               \<or> (\<exists>vs. map_of kvs ''values'' = Some (JArr vs))"
    by (auto simp: param_ok_def split: json.splits option.splits)
  from Cons have rest: "\<exists>v. safe_get_param_loop ps name dflt = Inr v"
    by simp
  from vals have "\<exists>v. err_bind (dict_get p ''values'' JNull)
       (\<lambda>v. let vals = py_or v (JArr []) in if truthy vals then subscript_0 vals else Inr dflt) = Inr v"
  proof (elim disjE exE)
    fix vs assume "map_of kvs ''values'' = Some (JArr vs)"
    then show ?thesis
      by (cases vs) (simp_all add: p err_bind_def py_or_def)
  qed (simp_all add: p err_bind_def py_or_def)
  with rest show ?case
    by (auto simp: p err_bind_def)
qed

lemma safe_get_param_ok:
  "params = JArr ps \<Longrightarrow> list_all param_ok ps \<Longrightarrow> \<exists>v. safe_get_param params name dflt = Inr v"
  using safe_get_param_loop_ok [of ps name dflt] by (simp add: safe_get_param_def err_bind_def)

lemma utc_to_local_ok:
  assumes "time_in_range isoparse tz vt"
  shows "\<exists>t. utc_to_local isoparse tz vt = Inr t"
proof -
  from assms obtain dt where dt: "isoparse vt = Inr dt"
    and u: "in_datetime_range (instant dt)"
    and w: "in_datetime_range (instant dt + tz (instant dt))"
    by (auto simp: time_in_range_def split: sum.splits)
  have "instant (dt\<lparr>tzinfo := Some 0\<rparr>) = instant dt" if "tzinfo dt = None"
    using that by (simp add: instant_def)
  with u w show ?thesis
    by (simp add: utc_to_local_def dt err_bind_def astimezone_def Let_def)
qed

lemma utc_to_local_overflow:
  "utc_to_local (\<lambda>v. Inr \<lparr>wall = datetime_max - 1799999999, tzinfo = Some 0\<rparr>) tz_example v
     = Inl OverflowError"
  by (simp add: utc_to_local_def err_bind_def astimezone_def instant_def tz_example_def
      in_datetime_range_def datetime_min_def datetime_max_def Let_def)

lemma make_row_ok:
  assumes "entry_ok isoparse tz item"
  shows "\<exists>r. make_row isoparse tz item = Inr r"
proof -
  from assms obtain kvs vt where item: "item = JObj kvs"
    and vt: "map_of kvs ''validTime'' = Some vt" and range: "time_in_range isoparse tz vt"
    by (auto simp: entry_ok_def split: json.splits option.splits)
  from assms item obtain ps where params: "dict_get item ''parameters'' (JArr []) = Inr (JArr ps)"
    and ps: "list_all param_ok ps"
    by (auto simp: entry_ok_def split: option.splits json.splits)
  have get: "\<exists>v. safe_get_param (JArr ps) name dflt = Inr v" for name dflt
    using safe_get_param_ok [OF refl ps] .
  obtain v1 where v1: "safe_get_param (JArr ps) ''t'' (JFloat NaN) = Inr v1" using get by blast
  obtain v2 where v2: "safe_get_param (JArr ps) ''ws'' (JFloat NaN) = Inr v2" using get by blast
  obtain v3 where v3: "safe_get_param (JArr ps) ''gust'' (JFloat NaN) = Inr v3" using get by blast
  obtain v4 where v4: "safe_get_param (JArr ps) ''pmean'' (JFloat (Fin 0)) = Inr v4" using get by blast
  obtain v5 where v5: "safe_get_param (JArr ps) ''tcc_mean'' (JFloat NaN) = Inr v5" using get by blast
  obtain v6 where v6: "safe_get_param (JArr ps) ''msl'' (JFloat NaN) = Inr v6" using get by blast
  obtain v7 where v7: "safe_get_param (JArr ps) ''r'' (JFloat NaN) = Inr v7" using get by blast
  obtain v8 where v8: "safe_get_param (JArr ps) ''wd'' (JFloat NaN) = Inr v8" using get by blast
  have "subscript_key item ''validTime'' = Inr vt"
    by (simp add: item vt)
  moreover have "\<exists>t. utc_to_local isoparse tz vt = Inr t"
    using range by (rule utc_to_local_ok)
  ultimately show ?thesis
    unfolding make_row_def
    by (auto simp: err_bind_def params v1 v2 v3 v4 v5 v6 v7 v8)
qed

lemma make_rows_ok:
  "list_all (entry_ok isoparse tz) items \<Longrightarrow>
     \<exists>rs. make_rows isoparse tz items = Inr rs \<and> length rs = length items"
proof (induction items)
  case Nil
  then show ?case by simp
next
  case (Cons item items)
  then obtain r rs where "make_row isoparse tz item = Inr r"
    "make_rows isoparse tz items = Inr rs" "length rs = length items"
    using make_row_ok [of isoparse tz item] by auto
  then show ?case
    by (simp add: err_bind_def)
qed

lemma make_row_lacks:
  "lacks_valid_time item \<Longrightarrow> \<exists>e. make_row isoparse tz item = Inl e"
  by (cases item) (auto simp: lacks_valid_time_def make_row_def err_bind_def)

lemma make_rows_lacks:
  "list_ex lacks_valid_time items \<Longrightarrow> \<exists>e. make_rows isoparse tz items = Inl e"
proof (induction items)
  case Nil
  then show ?case by simp
next
  case (Cons item items)
  show ?case
  proof (cases "make_row isoparse tz item")
    case (Inl e)
    then show ?thesis by (simp add: err_bind_def)
  next
    case (Inr r)
    with Cons.prems have "list_ex lacks_valid_time items"
      using make_row_lacks [of item isoparse tz] by auto
    then obtain e where "make_rows isoparse tz items = Inl e"
      using Cons.IH by blast
    with Inr show ?thesis by (simp add: err_bind_def)
  qed
qed

text \<open>
  C10, as the code has it.  Take a payload that is a dict whose \<^verbatim>\<open>timeSeries\<close> is a
  list.  If the list is not empty and every entry is a dict with a parseable
  \<^verbatim>\<open>validTime\<close> that stays in the range of \<^verbatim>\<open>datetime\<close> as UTC and in the zone, and
  with \<^verbatim>\<open>parameters\<close> absent or a list of dicts with \<^verbatim>\<open>values\<close> absent, null or a list,
  then \<^verbatim>\<open>smhi_to_df\<close> returns a table with one row per entry.  If some entry has no
  key \<^verbatim>\<open>validTime\<close>, then \<^verbatim>\<open>smhi_to_df\<close> raises: the entry is neither skipped nor
  given a default.
\<close>

theorem smhi_to_df_total_on_schema:
  assumes ts: "map_of kvs ''timeSeries'' = Some (JArr items)"
  shows "(items \<noteq> [] \<and> list_all (entry_ok isoparse tz) items \<longrightarrow>
            (\<exists>df. smhi_to_df isoparse tz (JObj kvs) = Inr df \<and> length (rows df) = length items))
       \<and> (list_ex lacks_valid_time items \<longrightarrow>
            (\<exists>e. smhi_to_df isoparse tz (JObj kvs) = Inl e))"
proof (intro conjI impI)
  assume "items \<noteq> [] \<and> list_all (entry_ok isoparse tz) items"
  then have ne: "items \<noteq> []" and ok: "list_all (entry_ok isoparse tz) items"
    by simp_all
  from make_rows_ok [OF ok] obtain rs where rs: "make_rows isoparse tz items = Inr rs"
    and len: "length rs = length items"
    by blast
  from len ne have "rs \<noteq> []"
    by auto
  then show "\<exists>df. smhi_to_df isoparse tz (JObj kvs) = Inr df \<and> length (rows df) = length items"
    using ne by (simp add: smhi_to_df_def ts err_bind_def py_or_def rs pd_DataFrame_def len)
next
  assume lacks: "list_ex lacks_valid_time items"
  then have ne: "items \<noteq> []"
    by auto
  from make_rows_lacks [OF lacks] obtain e where "make_rows isoparse tz items = Inl e"
    by blast
  then show "\<exists>e. smhi_to_df isoparse tz (JObj kvs) = Inl e"
    using ne by (simp add: smhi_to_df_def ts err_bind_def py_or_def)
qed

theorem smhi_to_df_total_on_schema_witness:
  "(\<exists>df. smhi_to_df isoparse_example tz_example payload_example = Inr df \<and> length (rows df) = 2)
   \<and> (\<exists>e. smhi_to_df isoparse_example tz_example
            (JObj [(''timeSeries'', JArr [JObj [(''parameters'', JArr [])]])]) = Inl e)"
proof -
  let ?items = "[JObj [(''validTime'', JStr ''2025-11-04T11:00:00''),
                    (''parameters'', JArr [
                       JObj [(''name'', JStr ''t''), (''values'', JArr [JFloat (Fin 3.5)])],
                       JObj [(''name'', JStr ''pmean''), (''values'', JArr [JFloat NaN])]])],
              JObj [(''validTime'', JStr ''2025-11-04T10:00:00Z'')]]"
  let ?kvs = "[(''approvedTime'', JStr ''2025-11-04T10:00:00Z''), (''timeSeries'', JArr ?items)]"
  have ts: "map_of ?kvs ''timeSeries'' = Some (JArr ?items)"
    by simp
  have ok: "?items \<noteq> [] \<and> list_all (entry_ok isoparse_example tz_example) ?items"
    by (simp add: entry_ok_def time_in_range_def param_ok_def isoparse_example_def
        tz_example_def instant_def in_datetime_range_def datetime_min_def datetime_max_def)
  have "\<exists>df. smhi_to_df isoparse_example tz_example (JObj ?kvs) = Inr df
           \<and> length (rows df) = length ?items"
    using smhi_to_df_total_on_schema [OF ts, of isoparse_example tz_example] ok by blast
  then have first: "\<exists>df. smhi_to_df isoparse_example tz_example payload_example = Inr df
           \<and> length (rows df) = 2"
    by (auto simp: payload_example_def)
  let ?bad = "[JObj [(''parameters'', JArr [])]]"
  have ts': "map_of [(''timeSeries'', JArr ?bad)] ''timeSeries'' = Some (JArr ?bad)"
    by simp
  have lacks: "list_ex lacks_valid_time ?bad"
    by (simp add: lacks_valid_time_def)
  have "\<exists>e. smhi_to_df isoparse_example tz_example (JObj [(''timeSeries'', JArr ?bad)]) = Inl e"
    using smhi_to_df_total_on_schema [OF ts', of isoparse_example tz_example] lacks by blast
  with first show ?thesis
    by blast
qed

text \<open>
  C10 as it is stated fails: an entry with a parseable \<^verbatim>\<open>validTime\<close> whose
  \<^verbatim>\<open>parameters\<close> hold something that is not a dict makes \<^verbatim>\<open>smhi_to_df\<close> raise
  \<^verbatim>\<open>AttributeError\<close>.
\<close>

theorem smhi_to_df_raises_on_bad_parameter:
  "list_all (has_valid_time isoparse_example)
      [JObj [(''validTime'', JStr ''2025-11-04T10:00:00Z''), (''parameters'', JArr [JInt 5])]]
   \<and> smhi_to_df isoparse_example tz_example
        (JObj [(''timeSeries'', JArr
           [JObj [(''validTime'', JStr ''2025-11-04T10:00:00Z''), (''parameters'', JArr [JInt 5])]])])
       = Inl AttributeError"
  by (simp add: has_valid_time_def isoparse_example_def smhi_to_df_def err_bind_def py_or_def
      make_row_def utc_to_local_def astimezone_def instant_def tz_example_def
      in_datetime_range_def datetime_min_def datetime_max_def safe_get_param_def Let_def)

section \<open>The current row\<close>

lemma argmin_first_less: "xs \<noteq> [] \<Longrightarrow> argmin_first xs < length xs"
  by (induction xs rule: argmin_first.induct) (auto simp: Let_def)

lemma argmin_first_min:
  "j < length xs \<Longrightarrow> xs ! argmin_first xs \<le> xs ! j"
proof (induction xs arbitrary: j rule: argmin_first.induct)
  case (3 x y ys)
  show ?case
  proof (cases j)
    case 0
    then show ?thesis by (simp add: Let_def)
  next
    case (Suc k)
    with 3 have "(y # ys) ! argmin_first (y # ys) \<le> (y # ys) ! k"
      by simp
    with Suc show ?thesis by (auto simp: Let_def)
  qed
qed simp_all

lemma argmin_first_strict:
  "j < argmin_first xs \<Longrightarrow> xs ! argmin_first xs < xs ! j"
proof (induction xs arbitrary: j rule: argmin_first.induct)
  case (3 x y ys)
  let ?m = "argmin_first (y # ys)"
  from "3.prems" have gt: "\<not> x \<le> (y # ys) ! ?m" and js: "j < Suc ?m"
    by (auto simp: Let_def split: if_splits)
  show ?case
  proof (cases j)
    case 0
    with gt show ?thesis by (simp add: Let_def)
  next
    case (Suc k)
    with js have "k < ?m" by simp
    then have "(y # ys) ! ?m < (y # ys) ! k"
      by (rule "3.IH")
    with Suc gt show ?thesis by (simp add: Let_def)
  qed
qed simp_all

text \<open>
  C3.  On a frame with rows \<^verbatim>\<open>pick_current_row\<close> returns a row whose distance in time
  from \<open>now\<close> is least, and every row before it is strictly farther, so the earlier of
  two equally near rows wins; on a frame without rows it raises (\<^verbatim>\<open>ValueError\<close> from
  \<^verbatim>\<open>idxmin\<close>, or \<^verbatim>\<open>KeyError\<close> when there is no column \<^verbatim>\<open>time\<close>); on a single row it
  returns that row for every \<open>now\<close>.
\<close>

theorem pick_current_row_nearest:
  "(rs \<noteq> [] \<longrightarrow>
      (\<exists>i < length rs.
         pick_current_row now (Frame rs) = Inr (rs ! i)
         \<and> (\<forall>j < length rs. \<bar>instant (time (rs ! i)) - instant now\<bar>
                               \<le> \<bar>instant (time (rs ! j)) - instant now\<bar>)
         \<and> (\<forall>j < i. \<bar>instant (time (rs ! i)) - instant now\<bar>
                      < \<bar>instant (time (rs ! j)) - instant now\<bar>)))
   \<and> pick_current_row now (Frame []) = Inl ValueError
   \<and> pick_current_row now NoColumns = Inl (KeyError ''time'')
   \<and> pick_current_row now (Frame [r]) = Inr r"
proof -
  let ?d = "\<lambda>r. \<bar>instant (time r) - instant now\<bar>"
  have nearest: "\<exists>i < length rs.
         pick_current_row now (Frame rs) = Inr (rs ! i)
         \<and> (\<forall>j < length rs. ?d (rs ! i) \<le> ?d (rs ! j))
         \<and> (\<forall>j < i. ?d (rs ! i) < ?d (rs ! j))" if ne: "rs \<noteq> []"
  proof -
    let ?ds = "map ?d rs"
    let ?i = "argmin_first ?ds"
    from ne have i: "?i < length rs"
      using argmin_first_less [of ?ds] by simp
    have pick: "pick_current_row now (Frame rs) = Inr (rs ! ?i)"
      using ne by (simp add: idxmin_def err_bind_def)
    have least: "?d (rs ! ?i) \<le> ?d (rs ! j)" if "j < length rs" for j
      using argmin_first_min [of j ?ds] that i by simp
    have first: "?d (rs ! ?i) < ?d (rs ! j)" if "j < ?i" for j
      using argmin_first_strict [of j ?ds] that i by simp
    from i pick least first show ?thesis
      by blast
  qed
  have "pick_current_row now (Frame []) = Inl ValueError"
    by (simp add: idxmin_def err_bind_def)
  moreover have "pick_current_row now NoColumns = Inl (KeyError ''time'')"
    by simp
  moreover have "pick_current_row now (Frame [r]) = Inr r"
    by (simp add: idxmin_def err_bind_def)
  ultimately show ?thesis
    using nearest by blast
qed

theorem pick_current_row_nearest_witness:
  "[row_at (- 600000000) JNull, row_at 300000000 JNull] \<noteq> []
   \<and> pick_current_row \<lparr>wall = 0, tzinfo = Some 0\<rparr>
        (Frame [row_at (- 600000000) JNull, row_at 300000000 JNull])
       = Inr (row_at 300000000 JNull)
   \<and> pick_current_row \<lparr>wall = 0, tzinfo = Some 0\<rparr>
        (Frame [row_at (- 300000000) (JInt 1), row_at 300000000 (JInt 2)])
       = Inr (row_at (- 300000000) (JInt 1))"
proof -
  let ?now = "\<lparr>wall = 0, tzinfo = Some 0\<rparr>"
  let ?rs = "[row_at (- 600000000) JNull, row_at 300000000 JNull]"
  let ?ts = "[row_at (- 300000000) (JInt 1), row_at 300000000 (JInt 2)]"
  have d: "\<bar>instant (time (row_at t v)) - instant ?now\<bar> = \<bar>t\<bar>" for t v
    by (simp add: row_at_def instant_def)
  from pick_current_row_nearest [of ?rs ?now]
  obtain i where i: "i < length ?rs" "pick_current_row ?now (Frame ?rs) = Inr (?rs ! i)"
    and least: "\<forall>j < length ?rs. \<bar>instant (time (?rs ! i)) - instant ?now\<bar>
                  \<le> \<bar>instant (time (?rs ! j)) - instant ?now\<bar>"
    by blast
  have "1 < length ?rs"
    by simp
  with least have "\<bar>instant (time (?rs ! i)) - instant ?now\<bar>
                  \<le> \<bar>instant (time (?rs ! 1)) - instant ?now\<bar>"
    by blast
  with i(1) have "i = 1"
    by (cases i) (simp_all add: d)
  with i(2) have near: "pick_current_row ?now (Frame ?rs) = Inr (row_at 300000000 JNull)"
    by simp
  from pick_current_row_nearest [of ?ts ?now]
  obtain k where k: "k < length ?ts" "pick_current_row ?now (Frame ?ts) = Inr (?ts ! k)"
    and first: "\<forall>j < k. \<bar>instant (time (?ts ! k)) - instant ?now\<bar>
                  < \<bar>instant (time (?ts ! j)) - instant ?now\<bar>"
    by blast
  have "k = 0"
  proof (rule ccontr)
    assume "k \<noteq> 0"
    with k(1) have k1: "k = 1" by simp
    then have "0 < k" by simp
    with first have "\<bar>instant (time (?ts ! k)) - instant ?now\<bar>
                  < \<bar>instant (time (?ts ! 0)) - instant ?now\<bar>"
      by blast
    with k1 show False by (simp add: d)
  qed
  with k(2) have "pick_current_row ?now (Frame ?ts) = Inr (row_at (- 300000000) (JInt 1))"
    by simp
  with near show ?thesis
    by simp
qed

section \<open>The window\<close>

lemma select_mask_map: "select_mask (map P xs) xs = filter P xs"
  by (induction xs) auto

text \<open>
  C5.  On a frame with the column \<^verbatim>\<open>time\<close> the window is exactly the rows, in their
  order, whose time \<open>t\<close> satisfies \<open>now \<le> t \<le> now + hours\<close>, both ends included;
  from no rows it selects none.
\<close>

theorem df_window_closed_interval:
  "df_window now h (Frame rs)
     = Inr (Frame (filter (\<lambda>r. instant now \<le> instant (time r)
                              \<and> instant (time r) \<le> instant now + h * 3600000000) rs))
   \<and> df_window now h (Frame []) = Inr (Frame [])"
proof -
  have "map (\<lambda>(a, b). a \<and> b)
          (zip (map (\<lambda>r. instant now \<le> instant (time r)) rs)
               (map (\<lambda>r. instant (time r) \<le> instant (add_hours now h)) rs))
        = map (\<lambda>r. instant now \<le> instant (time r)
                   \<and> instant (time r) \<le> instant now + h * 3600000000) rs"
    by (induction rs) (auto simp: instant_def add_hours_def)
  then show ?thesis
    by (simp add: select_mask_map)
qed

theorem df_window_closed_interval_witness:
  "df_window \<lparr>wall = 0, tzinfo = Some 0\<rparr> 48
     (Frame [row_at (- 1) JNull, row_at 0 JNull, row_at 172800000000 JNull,
             row_at 172800000001 JNull])
   = Inr (Frame [row_at 0 JNull, row_at 172800000000 JNull])"
proof -
  let ?now = "\<lparr>wall = 0, tzinfo = Some 0\<rparr>"
  let ?rs = "[row_at (- 1) JNull, row_at 0 JNull, row_at 172800000000 JNull,
              row_at 172800000001 JNull]"
  let ?P = "\<lambda>r. instant ?now \<le> instant (time r)
                 \<and> instant (time r) \<le> instant ?now + 48 * 3600000000"
  have i: "instant (time (row_at t v)) = t" for t v
    by (simp add: row_at_def instant_def)
  have now: "instant ?now = 0"
    by (simp add: instant_def)
  have "df_window ?now 48 (Frame ?rs) = Inr (Frame (filter ?P ?rs))"
    using df_window_closed_interval [of ?now 48 ?rs] by (rule conjunct1)
  also have "filter ?P ?rs = [row_at 0 JNull, row_at 172800000000 JNull]"
    by (simp add: i now)
  finally show ?thesis .
qed

section \<open>The fetcher\<close>

lemma coordinates_ok_iff:
  "coordinates_ok lat lon \<longleftrightarrow>
     (\<exists>x y. lat = Fin x \<and> lon = Fin y \<and> - 90 \<le> x \<and> x \<le> 90 \<and> - 180 \<le> y \<and> y \<le> 180)"
  by (cases lat; cases lon) (auto simp: coordinates_ok_def)

lemma length_sample: "length (sample r) \<le> 200"
  by (simp add: sample_def)

text \<open>
  C6.  The guard lets through exactly the finite pairs with latitude in \<open>[-90, 90]\<close>
  and longitude in \<open>[-180, 180]\<close>.  For any other pair \<^verbatim>\<open>fetch_smhi\<close> raises the
  \<^verbatim>\<open>ValueError\<close> of line 71 and the network is left as it was, whatever the session
  would answer.  For a pair in range it goes on to the request with the same latitude
  and longitude, and the network ends as the one call of \<^verbatim>\<open>s.get\<close> on their URL
  leaves it.
\<close>

theorem fetch_smhi_validates_coordinates:
  "(coordinates_ok lat lon \<longleftrightarrow>
      (\<exists>x y. lat = Fin x \<and> lon = Fin y \<and> - 90 \<le> x \<and> x \<le> 90 \<and> - 180 \<le> y \<and> y \<le> 180))
   \<and> (\<not> coordinates_ok lat lon \<longrightarrow>
         fetch_smhi fmt6 session_get json_loads lat lon net
           = (Inl (ValueError_coordinates lat lon), net))
   \<and> (coordinates_ok lat lon \<longrightarrow>
         fetch_smhi fmt6 session_get json_loads lat lon net
           = fetch_request fmt6 session_get json_loads lat lon net
         \<and> snd (fetch_smhi fmt6 session_get json_loads lat lon net)
           = snd (session_get (SMHI_ENDPOINT (fmt6 lat) (fmt6 lon)) net))"
proof -
  have "snd (fetch_request fmt6 session_get json_loads lat lon net)
        = snd (session_get (SMHI_ENDPOINT (fmt6 lat) (fmt6 lon)) net)"
    by (simp add: fetch_request_def Let_def split: prod.splits sum.splits)
  then show ?thesis
    using coordinates_ok_iff [of lat lon] by (simp add: fetch_smhi_def)
qed

theorem fetch_smhi_validates_coordinates_witness:
  "fetch_smhi fmt6_example session_example json_loads_example (Fin 91) (Fin 18.0686) 0
     = (Inl (ValueError_coordinates (Fin 91) (Fin 18.0686)), 0)
   \<and> fetch_smhi fmt6_example session_example json_loads_example (Fin 59.3293) NaN 0
     = (Inl (ValueError_coordinates (Fin 59.3293) NaN), 0)
   \<and> coordinates_ok (Fin 59.3293) (Fin 18.0686)
   \<and> snd (fetch_smhi fmt6_example session_example json_loads_example
            (Fin 59.3293) (Fin 18.0686) 0) = 1"
proof -
  have bad1: "\<not> coordinates_ok (Fin 91) (Fin 18.0686)"
    and bad2: "\<not> coordinates_ok (Fin 59.3293) NaN"
    and good: "coordinates_ok (Fin 59.3293) (Fin 18.0686)"
    by (simp_all add: coordinates_ok_def)
  have "fetch_smhi fmt6_example session_example json_loads_example (Fin 91) (Fin 18.0686) 0
     = (Inl (ValueError_coordinates (Fin 91) (Fin 18.0686)), 0)"
    using fetch_smhi_validates_coordinates
      [of "Fin 91" "Fin 18.0686" fmt6_example session_example json_loads_example 0] bad1
    by blast
  moreover have "fetch_smhi fmt6_example session_example json_loads_example (Fin 59.3293) NaN 0
     = (Inl (ValueError_coordinates (Fin 59.3293) NaN), 0)"
    using fetch_smhi_validates_coordinates
      [of "Fin 59.3293" NaN fmt6_example session_example json_loads_example 0] bad2
    by blast
  moreover have "snd (fetch_smhi fmt6_example session_example json_loads_example
            (Fin 59.3293) (Fin 18.0686) 0)
      = snd (session_example (SMHI_ENDPOINT (fmt6_example (Fin 59.3293))
               (fmt6_example (Fin 18.0686))) 0)"
    using fetch_smhi_validates_coordinates
      [of "Fin 59.3293" "Fin 18.0686" fmt6_example session_example json_loads_example 0] good
    by blast
  ultimately show ?thesis
    using good by (simp add: session_example_def)
qed

text \<open>
  C9 as it is stated fails: the test of line 86 looks for \<^verbatim>\<open>application/json\<close>
  anywhere in the header.  A response that declares \<^verbatim>\<open>application/json-seq\<close>, which
  is not JSON, passes it, and an HTML body then ends in the decode error of line 95.
\<close>

theorem fetch_smhi_json_seq_decode_error:
  "coordinates_ok (Fin 59.3293) (Fin 18.0686)
   \<and> \<not> is_json_type ''application/json-seq''
   \<and> fetch_smhi fmt6_example session_json_seq json_loads_example (Fin 59.3293) (Fin 18.0686) 0
       = (Inl (RuntimeError_decode ''Expecting value'' ''<html> </html>''), 1)"
  by (simp add: coordinates_ok_def is_json_type_def media_type_def fetch_smhi_def
      fetch_request_def session_json_seq_def raises_for_status_def declared_type_def
      json_loads_example_def sample_def Let_def)

text \<open>
  C9, as the code has it.  When the coordinates are in range, the session answers with a status from 200
  to 299 and the \<^verbatim>\<open>Content-Type\<close> header (empty when absent) does not contain
  \<^verbatim>\<open>application/json\<close>, \<^verbatim>\<open>fetch_smhi\<close> raises the \<^verbatim>\<open>RuntimeError\<close> of line 88 with
  that header and the first 200 characters of the body, newlines replaced by spaces;
  it is neither the error of line 82 nor that of line 95.
\<close>

theorem fetch_smhi_content_type:
  assumes "coordinates_ok lat lon"
    and "session_get (SMHI_ENDPOINT (fmt6 lat) (fmt6 lon)) net = (Inr r, net')"
    and "200 \<le> status_code r" "status_code r < 300"
    and "\<not> str_contains ''application/json'' (declared_type r)"
  shows "fetch_smhi fmt6 session_get json_loads lat lon net
           = (Inl (RuntimeError_content_type (declared_type r) (sample r)), net')
         \<and> sample r = map (\<lambda>c. if c = CHR 0x0A then CHR '' '' else c) (take 200 (resp_text r))
         \<and> length (sample r) \<le> 200
         \<and> (\<forall>s b. fst (fetch_smhi fmt6 session_get json_loads lat lon net)
                     \<noteq> Inl (RuntimeError_http s b))
         \<and> (\<forall>c b. fst (fetch_smhi fmt6 session_get json_loads lat lon net)
                     \<noteq> Inl (RuntimeError_decode c b))"
  using assms
  by (simp add: fetch_smhi_def fetch_request_def raises_for_status_def Let_def length_sample
      sample_def)

theorem fetch_smhi_content_type_witness:
  "coordinates_ok (Fin 59.3293) (Fin 18.0686)
   \<and> \<not> str_contains ''application/json'' ''text/html''
   \<and> fetch_smhi fmt6_example session_example json_loads_example (Fin 59.3293) (Fin 18.0686) 0
       = (Inl (RuntimeError_content_type ''text/html'' ''<html> </html>''), 1)"
proof -
  let ?r = "\<lparr>status_code = 200, content_type = Some ''text/html'',
            resp_text = ''<html>'' @ [CHR 0x0A] @ ''</html>''\<rparr>"
  have ok: "coordinates_ok (Fin 59.3293) (Fin 18.0686)"
    by (simp add: coordinates_ok_def)
  have get: "session_example (SMHI_ENDPOINT (fmt6_example (Fin 59.3293))
               (fmt6_example (Fin 18.0686))) 0 = (Inr ?r, 1)"
    by (simp add: session_example_def)
  have html: "\<not> str_contains ''application/json'' (declared_type ?r)"
    by (simp add: declared_type_def)
  have "fetch_smhi fmt6_example session_example json_loads_example (Fin 59.3293) (Fin 18.0686) 0
       = (Inl (RuntimeError_content_type (declared_type ?r) (sample ?r)), 1)"
    using fetch_smhi_content_type
      [of "Fin 59.3293" "Fin 18.0686" session_example fmt6_example 0 ?r 1 json_loads_example]
      ok get html
    by simp
  then show ?thesis
    using ok html by (simp add: declared_type_def sample_def)
qed

subsection \<open>Retries\<close>

lemma retry_loop_attempts:
  "attempts n < attempts (snd (retry_loop pol up m left k n))
   \<and> attempts (snd (retry_loop pol up m left k n)) \<le> attempts n + Suc left"
proof (induction left arbitrary: k n)
  case 0
  then show ?case by (simp add: Let_def)
next
  case (Suc left)
  let ?n2 = "n\<lparr>attempts := Suc (attempts n),
               sleeps := sleeps n @ [backoff_factor pol * 2 ^ k]\<rparr>"
  have "attempts ?n2 < attempts (snd (retry_loop pol up m left (Suc k) ?n2))
        \<and> attempts (snd (retry_loop pol up m left (Suc k) ?n2)) \<le> attempts ?n2 + Suc left"
    by (rule Suc.IH)
  then show ?case
    by (auto simp: Let_def)
qed

lemma retry_loop_no_retry:
  assumes "status_code (up (attempts n)) \<notin> set (status_forcelist pol)"
  shows "retry_loop pol up m left k n = (Inr (up (attempts n)), n\<lparr>attempts := Suc (attempts n)\<rparr>)"
  using assms by (cases left) (simp_all add: Let_def)

lemma retry_loop_retried_statuses:
  "attempts n \<le> j \<Longrightarrow> Suc j < attempts (snd (retry_loop pol up m left k n)) \<Longrightarrow>
     status_code (up j) \<in> set (status_forcelist pol)"
proof (induction left arbitrary: k n)
  case 0
  then show ?case by (simp add: Let_def split: if_splits)
next
  case (Suc left)
  let ?n2 = "n\<lparr>attempts := Suc (attempts n),
               sleeps := sleeps n @ [backoff_factor pol * 2 ^ k]\<rparr>"
  show ?case
  proof (cases "m \<in> set (allowed_methods pol)
                \<and> status_code (up (attempts n)) \<in> set (status_forcelist pol)")
    case False
    with Suc.prems show ?thesis by (simp add: Let_def)
  next
    case True
    with Suc.prems have later: "Suc j < attempts (snd (retry_loop pol up m left (Suc k) ?n2))"
      by (simp add: Let_def)
    show ?thesis
    proof (cases "j = attempts n")
      case True
      with \<open>m \<in> set (allowed_methods pol)
                \<and> status_code (up (attempts n)) \<in> set (status_forcelist pol)\<close>
      show ?thesis by simp
    next
      case False
      with Suc.prems have "attempts ?n2 \<le> j" by simp
      then show ?thesis
        using later by (rule Suc.IH)
    qed
  qed
qed

lemma retry_loop_continues:
  "m \<in> set (allowed_methods pol) \<Longrightarrow> j < left \<Longrightarrow>
   \<forall>i \<le> j. status_code (up (attempts n + i)) \<in> set (status_forcelist pol) \<Longrightarrow>
   attempts n + Suc j < attempts (snd (retry_loop pol up m left k n))"
proof (induction left arbitrary: j k n)
  case 0
  then show ?case by simp
next
  case (Suc left)
  let ?n2 = "n\<lparr>attempts := Suc (attempts n),
               sleeps := sleeps n @ [backoff_factor pol * 2 ^ k]\<rparr>"
  from Suc.prems(3) have first: "status_code (up (attempts n)) \<in> set (status_forcelist pol)"
    by force
  with Suc.prems(1)
  have step: "retry_loop pol up m (Suc left) k n = retry_loop pol up m left (Suc k) ?n2"
    by (simp add: Let_def)
  show ?case
  proof (cases j)
    case 0
    have "attempts ?n2 < attempts (snd (retry_loop pol up m left (Suc k) ?n2))"
      using retry_loop_attempts [of ?n2 pol up m left "Suc k"] by blast
    with 0 show ?thesis
      unfolding step by simp
  next
    case (Suc j')
    with Suc.prems(2) have "j' < left"
      by simp
    moreover have "\<forall>i \<le> j'. status_code (up (attempts ?n2 + i)) \<in> set (status_forcelist pol)"
    proof (intro allI impI)
      fix i assume "i \<le> j'"
      then have "Suc i \<le> j" using Suc by simp
      with Suc.prems(3) have "status_code (up (attempts n + Suc i)) \<in> set (status_forcelist pol)"
        by blast
      then show "status_code (up (attempts ?n2 + i)) \<in> set (status_forcelist pol)"
        by simp
    qed
    ultimately have "attempts ?n2 + Suc j' < attempts (snd (retry_loop pol up m left (Suc k) ?n2))"
      using Suc.prems(1) Suc.IH by blast
    with Suc show ?thesis
      unfolding step by simp
  qed
qed

lemma retry_loop_sleeps:
  "sleeps (snd (retry_loop pol up m left k n))
     = sleeps n @ map (\<lambda>i. backoff_factor pol * 2 ^ (k + i))
                     [0 ..< attempts (snd (retry_loop pol up m left k n)) - Suc (attempts n)]"
proof (induction left arbitrary: k n)
  case 0
  then show ?case by (simp add: Let_def)
next
  case (Suc left)
  let ?n2 = "n\<lparr>attempts := Suc (attempts n),
               sleeps := sleeps n @ [backoff_factor pol * 2 ^ k]\<rparr>"
  show ?case
  proof (cases "m \<in> set (allowed_methods pol)
                \<and> status_code (up (attempts n)) \<in> set (status_forcelist pol)")
    case False
    then show ?thesis by (auto simp: Let_def)
  next
    case True
    then have step: "retry_loop pol up m (Suc left) k n = retry_loop pol up m left (Suc k) ?n2"
      by (simp add: Let_def)
    let ?a = "attempts (snd (retry_loop pol up m left (Suc k) ?n2))"
    have gt: "attempts ?n2 < ?a"
      using retry_loop_attempts [of ?n2 pol up m left "Suc k"] by blast
    define c where "c = ?a - Suc (attempts ?n2)"
    from gt have a: "?a - Suc (attempts n) = Suc c"
      by (simp add: c_def)
    have "sleeps (snd (retry_loop pol up m left (Suc k) ?n2))
          = sleeps ?n2 @ map (\<lambda>i. backoff_factor pol * 2 ^ (Suc k + i)) [0 ..< c]"
      unfolding c_def by (rule Suc.IH)
    also have "\<dots> = sleeps n @ map (\<lambda>i. backoff_factor pol * 2 ^ (k + i)) [0 ..< Suc c]"
    proof -
      have "map (\<lambda>i. backoff_factor pol * 2 ^ (k + i)) [0 ..< Suc c]
            = backoff_factor pol * 2 ^ k
              # map (\<lambda>i. backoff_factor pol * 2 ^ (Suc k + i)) [0 ..< c]"
        by (simp add: upt_conv_Cons map_Suc_upt [symmetric] o_def del: upt_Suc)
      then show ?thesis
        by simp
    qed
    finally show ?thesis
      by (simp only: step a)
  qed
qed

lemma s_get_three_503:
  assumes "status_code (up url 0) = 503" "status_code (up url 1) = 503"
    "status_code (up url 2) = 503"
    "status_code (up url 3) = 503 \<or> status_code (up url 3) \<notin> set (status_forcelist requests_session)"
  shows "s_get up url \<lparr>attempts = 0, sleeps = []\<rparr>
           = (Inr (up url 3), \<lparr>attempts = 4, sleeps = [0.5, 1, 2]\<rparr>)"
proof -
  show ?thesis
    using assms
    by (auto simp: s_get_def requests_session_def eval_nat_numeral Let_def)
qed

text \<open>
  C8, against the retry loop as the specification describes it.  One call of
  \<^verbatim>\<open>s.get\<close> sends between one and four requests.  A response is followed by another
  request exactly when its status is one of 429, 500, 502, 503 and 504 and fewer than
  three retries have been made: a first response with any other status is returned at
  once, and a run of \<open>j + 1 \<le> 3\<close> responses with such statuses is followed by request
  number \<open>j + 2\<close>.  Before retry number \<open>i\<close> (from 0) the session sleeps \<open>0.5 * 2 ^ i\<close>.
  Against an upstream that answers 503 three times and then 200 with a JSON body,
  \<^verbatim>\<open>fetch_smhi\<close> returns the payload after four requests, having slept 0.5, 1 and 2;
  against one that always answers 503 it raises the \<^verbatim>\<open>RuntimeError\<close> of line 82 after
  four requests and the same sleeps.
\<close>

theorem fetch_smhi_retries:
  assumes ok: "coordinates_ok lat lon"
    and url: "url = SMHI_ENDPOINT (fmt6 lat) (fmt6 lon)"
  shows "attempts n < attempts (snd (s_get up url n))
       \<and> attempts (snd (s_get up url n)) \<le> attempts n + 4
       \<and> (\<forall>j. attempts n \<le> j \<and> Suc j < attempts (snd (s_get up url n))
              \<longrightarrow> status_code (up url j) \<in> {429, 500, 502, 503, 504})
       \<and> (status_code (up url (attempts n)) \<notin> {429, 500, 502, 503, 504}
            \<longrightarrow> s_get up url n = (Inr (up url (attempts n)), n\<lparr>attempts := Suc (attempts n)\<rparr>))
       \<and> (\<forall>j < 3. (\<forall>i \<le> j. status_code (up url (attempts n + i)) \<in> {429, 500, 502, 503, 504})
              \<longrightarrow> attempts n + Suc j < attempts (snd (s_get up url n)))
       \<and> sleeps (snd (s_get up url n))
           = sleeps n @ map (\<lambda>i. 0.5 * 2 ^ i)
                           [0 ..< attempts (snd (s_get up url n)) - Suc (attempts n)]
       \<and> ((\<forall>k < 3. status_code (up url k) = 503) \<and> status_code (up url 3) = 200
            \<and> str_contains ''application/json'' (declared_type (up url 3))
            \<and> json_loads (resp_text (up url 3)) = Inr v
            \<longrightarrow> fetch_smhi fmt6 (s_get up) json_loads lat lon \<lparr>attempts = 0, sleeps = []\<rparr>
                  = (Inr v, \<lparr>attempts = 4, sleeps = [0.5, 1, 2]\<rparr>))
       \<and> ((\<forall>k. status_code (up url k) = 503)
            \<longrightarrow> fetch_smhi fmt6 (s_get up) json_loads lat lon \<lparr>attempts = 0, sleeps = []\<rparr>
                  = (Inl (RuntimeError_http 503 (sample (up url 3))),
                     \<lparr>attempts = 4, sleeps = [0.5, 1, 2]\<rparr>))"
proof -
  have forcelist: "set (status_forcelist requests_session) = {429, 500, 502, 503, 504}"
    by (simp add: requests_session_def)
  have get: "''GET'' \<in> set (allowed_methods requests_session)"
    by (simp add: requests_session_def)
  have total: "total_retries requests_session = 3"
    by (simp add: requests_session_def)
  have factor: "backoff_factor requests_session = 0.5"
    by (simp add: requests_session_def)
  have bounds: "attempts n < attempts (snd (s_get up url n))
       \<and> attempts (snd (s_get up url n)) \<le> attempts n + 4"
    using retry_loop_attempts [of n requests_session "up url" "''GET''" 3 0]
    by (simp add: s_get_def requests_session_def)
  have retried: "status_code (up url j) \<in> {429, 500, 502, 503, 504}"
    if "attempts n \<le> j \<and> Suc j < attempts (snd (s_get up url n))" for j
    using retry_loop_retried_statuses [of n j requests_session "up url" "''GET''"
        "total_retries requests_session" 0] that forcelist
    by (simp add: s_get_def)
  have other: "s_get up url n = (Inr (up url (attempts n)), n\<lparr>attempts := Suc (attempts n)\<rparr>)"
    if "status_code (up url (attempts n)) \<notin> {429, 500, 502, 503, 504}"
    using retry_loop_no_retry [of "up url" n requests_session] that forcelist
    by (simp add: s_get_def)
  have again: "attempts n + Suc j < attempts (snd (s_get up url n))"
    if "j < 3" "\<forall>i \<le> j. status_code (up url (attempts n + i)) \<in> {429, 500, 502, 503, 504}" for j
    using retry_loop_continues [of "''GET''" requests_session j 3 "up url" n 0] get that forcelist
    by (simp add: s_get_def total)
  have slept: "sleeps (snd (s_get up url n))
           = sleeps n @ map (\<lambda>i. 0.5 * 2 ^ i)
                           [0 ..< attempts (snd (s_get up url n)) - Suc (attempts n)]"
    using retry_loop_sleeps [of requests_session "up url" "''GET''" 3 0 n]
    by (simp add: s_get_def total factor)
  have succeed: "fetch_smhi fmt6 (s_get up) json_loads lat lon \<lparr>attempts = 0, sleeps = []\<rparr>
                  = (Inr v, \<lparr>attempts = 4, sleeps = [0.5, 1, 2]\<rparr>)"
    if h: "(\<forall>k < 3. status_code (up url k) = 503) \<and> status_code (up url 3) = 200
            \<and> str_contains ''application/json'' (declared_type (up url 3))
            \<and> json_loads (resp_text (up url 3)) = Inr v"
  proof -
    from h have "status_code (up url 0) = 503" "status_code (up url 1) = 503"
      "status_code (up url 2) = 503"
      by simp_all
    moreover from h have "status_code (up url 3) \<notin> set (status_forcelist requests_session)"
      by (simp add: forcelist)
    ultimately have "s_get up url \<lparr>attempts = 0, sleeps = []\<rparr>
           = (Inr (up url 3), \<lparr>attempts = 4, sleeps = [0.5, 1, 2]\<rparr>)"
      by (simp add: s_get_three_503)
    with h ok show ?thesis
      by (simp add: fetch_smhi_def fetch_request_def url [symmetric] raises_for_status_def)
  qed
  have fail: "fetch_smhi fmt6 (s_get up) json_loads lat lon \<lparr>attempts = 0, sleeps = []\<rparr>
                  = (Inl (RuntimeError_http 503 (sample (up url 3))),
                     \<lparr>attempts = 4, sleeps = [0.5, 1, 2]\<rparr>)"
    if h: "\<forall>k. status_code (up url k) = 503"
  proof -
    from h have "s_get up url \<lparr>attempts = 0, sleeps = []\<rparr>
           = (Inr (up url 3), \<lparr>attempts = 4, sleeps = [0.5, 1, 2]\<rparr>)"
      by (simp add: s_get_three_503)
    with h ok show ?thesis
      by (simp add: fetch_smhi_def fetch_request_def url [symmetric] raises_for_status_def)
  qed
  from bounds retried other again slept succeed fail show ?thesis
    by blast
qed

theorem fetch_smhi_retries_witness:
  "coordinates_ok (Fin 59.3293) (Fin 18.0686)
   \<and> fetch_smhi fmt6_example (s_get upstream_503_then_200) json_loads_example
        (Fin 59.3293) (Fin 18.0686) \<lparr>attempts = 0, sleeps = []\<rparr>
       = (Inr (JObj []), \<lparr>attempts = 4, sleeps = [0.5, 1, 2]\<rparr>)
   \<and> fetch_smhi fmt6_example (s_get upstream_503) json_loads_example
        (Fin 59.3293) (Fin 18.0686) \<lparr>attempts = 0, sleeps = []\<rparr>
       = (Inl (RuntimeError_http 503 ''Service Unavailable''),
          \<lparr>attempts = 4, sleeps = [0.5, 1, 2]\<rparr>)
   \<and> attempts (snd (s_get upstream_mixed
         (SMHI_ENDPOINT (fmt6_example (Fin 59.3293)) (fmt6_example (Fin 18.0686)))
         \<lparr>attempts = 0, sleeps = []\<rparr>)) = 4"
proof -
  let ?url = "SMHI_ENDPOINT (fmt6_example (Fin 59.3293)) (fmt6_example (Fin 18.0686))"
  let ?net = "\<lparr>attempts = 0, sleeps = []\<rparr>"
  have ok: "coordinates_ok (Fin 59.3293) (Fin 18.0686)"
    by (simp add: coordinates_ok_def)
  note inst = fetch_smhi_retries [of "Fin 59.3293" "Fin 18.0686" ?url fmt6_example
      ?net _ json_loads_example, OF ok refl]
  have a: "(\<forall>k < 3. status_code (upstream_503_then_200 ?url k) = 503)
      \<and> status_code (upstream_503_then_200 ?url 3) = 200
      \<and> str_contains ''application/json'' (declared_type (upstream_503_then_200 ?url 3))
      \<and> json_loads_example (resp_text (upstream_503_then_200 ?url 3)) = Inr (JObj [])"
    by (simp add: upstream_503_then_200_def declared_type_def json_loads_example_def)
  have b: "\<forall>k. status_code (upstream_503 ?url k) = 503"
    by (simp add: upstream_503_def)
  have c: "\<forall>i \<le> 2. status_code (upstream_mixed ?url (attempts ?net + i))
             \<in> {429, 500, 502, 503, 504}"
    by (simp add: upstream_mixed_def)
  have "fetch_smhi fmt6_example (s_get upstream_503_then_200) json_loads_example
        (Fin 59.3293) (Fin 18.0686) ?net
       = (Inr (JObj []), \<lparr>attempts = 4, sleeps = [0.5, 1, 2]\<rparr>)"
    using inst [of upstream_503_then_200 "JObj []"] a by blast
  moreover have "fetch_smhi fmt6_example (s_get upstream_503) json_loads_example
        (Fin 59.3293) (Fin 18.0686) ?net
       = (Inl (RuntimeError_http 503 (sample (upstream_503 ?url 3))),
          \<lparr>attempts = 4, sleeps = [0.5, 1, 2]\<rparr>)"
    using inst [of upstream_503] b by blast
  moreover have "attempts (snd (s_get upstream_mixed ?url ?net)) = 4"
  proof -
    have "(2::nat) < 3"
      by simp
    with c have "attempts ?net + Suc 2 < attempts (snd (s_get upstream_mixed ?url ?net))"
      using inst [of upstream_mixed] by blast
    moreover have "attempts (snd (s_get upstream_mixed ?url ?net)) \<le> attempts ?net + 4"
      using inst [of upstream_mixed] by blast
    ultimately show ?thesis
      by simp
  qed
  ultimately show ?thesis
    using ok by (simp add: sample_def upstream_503_def)
qed

section \<open>The compass label\<close>

subsection \<open>Where rounding changes nothing\<close>


lemma round_even_of_int [simp]: "round_even (of_int N) = N"
  by (simp add: round_even_def)






lemma rd_zero [simp]: "rd 0 = 0"
  by (simp add: rd_def)




















end
